theory Spec2Isabelle
  imports Complex_Main
begin

section \<open>Host values\<close>

text \<open>
  The plugin is glue over the host application: coordinates, reference systems, the
  message bar, the log, the clipboard and the signal of the canvas all belong to the
  host. The host's values are modelled by what the plugin observes of them.

  A Python float is a finite value, a negative zero, an infinity or a NaN. The
  comparisons below are the ones Python applies: a NaN is unequal to everything,
  itself included, and is in no order relation with anything.
\<close>

datatype pyfloat = Fin real | NegZero | PosInf | NegInf | NaN

fun finite_value :: "pyfloat \<Rightarrow> real" where
  "finite_value (Fin r) = r"
| "finite_value _ = 0"

fun float_eq :: "pyfloat \<Rightarrow> pyfloat \<Rightarrow> bool" where
  "float_eq NaN _ = False"
| "float_eq _ NaN = False"
| "float_eq PosInf b = (b = PosInf)"
| "float_eq _ PosInf = False"
| "float_eq NegInf b = (b = NegInf)"
| "float_eq _ NegInf = False"
| "float_eq a b = (finite_value a = finite_value b)"

fun float_le :: "pyfloat \<Rightarrow> pyfloat \<Rightarrow> bool" where
  "float_le NaN _ = False"
| "float_le _ NaN = False"
| "float_le NegInf _ = True"
| "float_le _ PosInf = True"
| "float_le PosInf _ = False"
| "float_le _ NegInf = False"
| "float_le a b = (finite_value a \<le> finite_value b)"

fun float_abs :: "pyfloat \<Rightarrow> pyfloat" where
  "float_abs (Fin r) = Fin \<bar>r\<bar>"
| "float_abs NegZero = Fin 0"
| "float_abs PosInf = PosInf"
| "float_abs NegInf = PosInf"
| "float_abs NaN = NaN"

text \<open>\<open>QgsPointXY\<close>: the accessors \<open>x()\<close> and \<open>y()\<close>.\<close>

datatype QgsPointXY = QgsPointXY (point_x: pyfloat) (point_y: pyfloat)

text \<open>\<open>QgsCoordinateReferenceSystem\<close>: the plugin reads \<open>isValid()\<close> and \<open>authid()\<close>.\<close>

record crs =
  isValid :: bool
  authid :: string

text \<open>The exceptions the source names, each with the text \<open>str(e)\<close> gives.\<close>

datatype py_exception = TypeError string | RuntimeError string | QgsCsException string

fun str_exception :: "py_exception \<Rightarrow> string" where
  "str_exception (TypeError m) = m"
| "str_exception (RuntimeError m) = m"
| "str_exception (QgsCsException m) = m"

text \<open>\<open>Qgis.Info\<close>, \<open>Qgis.Warning\<close>, \<open>Qgis.Critical\<close>, \<open>Qgis.Success\<close>.\<close>

datatype level = Info | Warning | Critical | Success

text \<open>
  One call of \<open>iface.messageBar().pushMessage(title, text, level=..., duration=...)\<close>
  and one call of \<open>QgsMessageLog.logMessage(message, tag, level)\<close>.
\<close>

datatype bar_message = BarMessage string string level nat

datatype log_entry = LogEntry string string level

text \<open>The calls to the reference-system service that the copy action makes.\<close>

datatype crs_call = DestinationCrs | NewCrs string | Transform crs crs QgsPointXY

text \<open>
  A \<open>QAction\<close> is an object: the number is its identity, the string its text. A menu
  holds an action at most once, and tells two actions apart by identity.
\<close>

datatype QAction = QAction nat string

datatype menu_item = Separator | MenuAction QAction

text \<open>
  \<open>QgsMapMouseEvent\<close>: \<open>mapPoint()\<close> gives the clicked point. The handler tests the
  truth value of the event and of the point; an absent object is false and a point
  object is true (the host's binding gives a point the length 2).
\<close>

record QgsMapMouseEvent =
  mapPoint :: "QgsPointXY option"

text \<open>
  What the host answers. The plugin computes none of these: the reference system of the
  canvas, the construction of a reference system from a code, the transform of a point
  (which raises on failure), the text of a float in an f-string, \<open>toString()\<close> of a
  point, and \<open>disconnect\<close> of the handler from the signal, given the number of
  connections of the handler.
\<close>

record host =
  destinationCrs :: crs
  newCrs :: "string \<Rightarrow> crs"
  transform :: "crs \<Rightarrow> crs \<Rightarrow> QgsPointXY \<Rightarrow> py_exception + QgsPointXY"
  float_str :: "pyfloat \<Rightarrow> string"
  toString :: "QgsPointXY \<Rightarrow> string"
  disconnect :: "nat \<Rightarrow> py_exception + nat"

section \<open>State\<close>

text \<open>
  The module global \<open>clicked_point_canvas_crs\<close>, and the state of the host the plugin
  acts on: the messages pushed to the message bar, the entries of the message log, the
  texts set on the clipboard (oldest first), the calls made to the reference-system
  service, the number of connections of the handler to \<open>contextMenuAboutToShow\<close>,
  whether the C++ object of the action is gone (\<open>sip.isdeleted\<close>) and whether its
  deletion is scheduled (\<open>deleteLater\<close>).
\<close>

record world =
  clicked_point_canvas_crs :: "QgsPointXY option"
  message_bar :: "bar_message list"
  message_log :: "log_entry list"
  clipboard :: "string list"
  crs_calls :: "crs_call list"
  connections :: nat
  action_deleted :: bool
  deletion_scheduled :: bool

text \<open>The fields of the plugin instance that the methods read or assign.\<close>

record plugin =
  plugin_name :: string
  context_menu_action :: "QAction option"

definition pushMessage :: "string \<Rightarrow> string \<Rightarrow> level \<Rightarrow> nat \<Rightarrow> world \<Rightarrow> world" where
  "pushMessage title txt lv duration w =
     w\<lparr>message_bar := message_bar w @ [BarMessage title txt lv duration]\<rparr>"

definition logMessage :: "string \<Rightarrow> string \<Rightarrow> level \<Rightarrow> world \<Rightarrow> world" where
  "logMessage msg tag lv w = w\<lparr>message_log := message_log w @ [LogEntry msg tag lv]\<rparr>"

definition setText :: "string \<Rightarrow> world \<Rightarrow> world" where
  "setText s w = w\<lparr>clipboard := clipboard w @ [s]\<rparr>"

definition called :: "crs_call \<Rightarrow> world \<Rightarrow> world" where
  "called c w = w\<lparr>crs_calls := crs_calls w @ [c]\<rparr>"

definition clear_point :: "world \<Rightarrow> world" where
  "clear_point w = w\<lparr>clicked_point_canvas_crs := None\<rparr>"

section \<open>The plugin\<close>

text \<open>
  \<open>__init__\<close>: the name, the action (created once), and a log entry. The first
  argument is the identity of the action object that is created.
\<close>

definition init :: "nat \<Rightarrow> world \<Rightarrow> plugin \<times> world" where
  "init oid w =
     (let self = \<lparr>plugin_name = ''Copy Google Maps Link'',
                  context_menu_action = Some (QAction oid ''Copy Google Maps Link Here'')\<rparr>;
          w1 = w\<lparr>action_deleted := False, deletion_scheduled := False\<rparr>
      in (self, logMessage (plugin_name self @ '': __init__ completed. Action created.'')
                  (plugin_name self) Info w1))"

text \<open>\<open>initGui\<close>: connects the handler to the signal of the canvas.\<close>

definition initGui :: "plugin \<Rightarrow> world \<Rightarrow> world" where
  "initGui self w =
     logMessage (plugin_name self @ '': initGui completed and signal connected.'')
       (plugin_name self) Info (w\<lparr>connections := Suc (connections w)\<rparr>)"

text \<open>
  \<open>menu.addAction(action)\<close>. For \<open>None\<close> the binding passes a null pointer, and the
  menu adds nothing and returns. For a wrapper whose C++ object is gone the binding
  raises \<open>RuntimeError\<close>. Otherwise the action becomes the last entry of the menu;
  an action the menu already holds is first removed from the place it had, so that it
  is moved and not held twice.
\<close>

definition addAction :: "menu_item list \<Rightarrow> QAction option \<Rightarrow> world \<Rightarrow> py_exception + menu_item list" where
  "addAction menu a w =
     (case a of
        None \<Rightarrow> Inr menu
      | Some act \<Rightarrow>
          if action_deleted w
          then Inl (RuntimeError ''wrapped C/C++ object of type QAction has been deleted'')
          else Inr (removeAll (MenuAction act) menu @ [MenuAction act]))"

text \<open>
  \<open>prepare_canvas_context_menu(menu, event)\<close>. The menu is mutated in place in the
  source; here it is returned, with the exception that left the handler, if any. An
  exception of \<open>addAction\<close> comes after the point is stored and the separator added.
\<close>

definition prepare_canvas_context_menu ::
  "plugin \<Rightarrow> menu_item list \<Rightarrow> QgsMapMouseEvent option \<Rightarrow> world
     \<Rightarrow> py_exception option \<times> menu_item list \<times> world" where
  "prepare_canvas_context_menu self menu event w =
     (case (case event of None \<Rightarrow> None | Some e \<Rightarrow> mapPoint e) of
        Some p \<Rightarrow>
          (let w1 = w\<lparr>clicked_point_canvas_crs := Some p\<rparr>;
               menu1 = menu @ [Separator]
           in case addAction menu1 (context_menu_action self) w1 of
                Inl e \<Rightarrow> (Some e, menu1, w1)
              | Inr menu2 \<Rightarrow> (None, menu2, w1))
      | None \<Rightarrow>
          (None, menu,
           logMessage
             (plugin_name self @
                '': prepare_canvas_context_menu called without a valid event or mapPoint.'')
             (plugin_name self) Warning w))"

text \<open>
  The test of the transformed point, as the source writes it: self-equality of both
  components, \<open>abs(..) == float('inf')\<close> for both, and the two chained comparisons.
\<close>

definition invalid_wgs84 :: "QgsPointXY \<Rightarrow> bool" where
  "invalid_wgs84 p =
     (\<not> (float_eq (point_x p) (point_x p) \<and> float_eq (point_y p) (point_y p))
      \<or> float_eq (float_abs (point_x p)) PosInf
      \<or> float_eq (float_abs (point_y p)) PosInf
      \<or> \<not> ((float_le (Fin (- 90)) (point_y p) \<and> float_le (point_y p) (Fin 90))
           \<and> (float_le (Fin (- 180)) (point_x p) \<and> float_le (point_x p) (Fin 180))))"

definition google_maps_link :: "host \<Rightarrow> QgsPointXY \<Rightarrow> string" where
  "google_maps_link h p =
     ''https://www.google.com/maps?q='' @ float_str h (point_y p) @ '','' @ float_str h (point_x p)"

text \<open>
  The source returns \<open>None\<close> on every path. The model returns, beside the new state,
  which exit was taken: the return before the \<open>try\<close>, one of the three returns in its
  body, the \<open>except\<close> handler, or the end of the body.
\<close>

datatype copy_exit =
    NoPointCaptured
  | InvalidSourceCRS
  | InvalidTargetCRS
  | TransformError
  | InvalidTransformResult
  | CopySuccess

text \<open>
  \<open>copy_google_maps_link_from_context\<close>. Every exit of the \<open>try\<close> statement passes
  through \<open>finally\<close>, which clears the point: \<open>clear_point\<close> is applied on each of
  them, and not on the return that precedes the \<open>try\<close>.
\<close>

definition copy_google_maps_link_from_context :: "host \<Rightarrow> plugin \<Rightarrow> world \<Rightarrow> copy_exit \<times> world" where
  "copy_google_maps_link_from_context h self w =
     (case clicked_point_canvas_crs w of
        None \<Rightarrow>
          (NoPointCaptured,
           logMessage ''copy_google_maps_link_from_context: clicked_point_canvas_crs is None.''
             (plugin_name self) Warning
             (pushMessage ''Error''
                ''Could not get clicked point. Please right-click on the map again.''
                Critical 4 w))
      | Some p \<Rightarrow>
          (let canvas_crs = destinationCrs h;
               w1 = called DestinationCrs w
           in if \<not> isValid canvas_crs then
                (InvalidSourceCRS,
                 clear_point
                   (logMessage (''Invalid Canvas CRS: '' @ authid canvas_crs)
                      (plugin_name self) Critical
                      (pushMessage ''Error''
                         ''Invalid Canvas CRS. Cannot perform transformation.'' Critical 5 w1)))
              else
                (let target_crs = newCrs h ''EPSG:4326'';
                     w2 = called (NewCrs ''EPSG:4326'') w1
                 in if \<not> isValid target_crs then
                      (InvalidTargetCRS,
                       clear_point
                         (logMessage ''Failed to initialize EPSG:4326.''
                            (plugin_name self) Critical
                            (pushMessage ''Error''
                               ''Could not define target CRS (EPSG:4326).'' Critical 5 w2)))
                    else
                      (let w3 = called (Transform canvas_crs target_crs p) w2
                       in case transform h canvas_crs target_crs p of
                            Inl e \<Rightarrow>
                              (let error_message =
                                     ''Error copying Google Maps link: '' @ str_exception e
                               in (TransformError,
                                   clear_point
                                     (logMessage error_message (plugin_name self) Critical
                                        (pushMessage ''Error'' error_message Critical 5 w3))))
                          | Inr point_wgs84 \<Rightarrow>
                              if invalid_wgs84 point_wgs84 then
                                (InvalidTransformResult,
                                 clear_point
                                   (logMessage
                                      (''Coordinate transformation resulted in invalid WGS84. Original: ''
                                         @ toString h p @ '', Canvas CRS: '' @ authid canvas_crs
                                         @ '', Transformed: '' @ toString h point_wgs84)
                                      (plugin_name self) Critical
                                      (pushMessage ''Error''
                                         ''Coordinate transformation failed or resulted in invalid WGS84 coordinates. Check project CRS.''
                                         Critical 5 w3)))
                              else
                                (let link = google_maps_link h point_wgs84
                                 in (CopySuccess,
                                     clear_point
                                       (pushMessage ''Success''
                                          (''Google Maps link copied: '' @ link) Success 5
                                          (setText link w3))))))))"

text \<open>
  \<open>self.context_menu_action.deleteLater()\<close>: raises \<open>RuntimeError\<close> when the C++
  object is gone, which is what the test of \<open>sip.isdeleted\<close> in \<open>unload\<close> guards.
\<close>

definition deleteLater :: "world \<Rightarrow> py_exception + world" where
  "deleteLater w =
     (if action_deleted w
      then Inl (RuntimeError ''wrapped C/C++ object of type QAction has been deleted'')
      else Inr (w\<lparr>deletion_scheduled := True\<rparr>))"

text \<open>
  \<open>unload\<close>. \<open>self.canvas\<close> is assigned once, in \<open>__init__\<close>, and is a true object,
  so the disconnect is always attempted. Its \<open>TypeError\<close> and any other exception
  are caught, each with its own log entry. The calls after the \<open>try\<close> statement are
  outside every handler: an exception there leaves \<open>unload\<close>, and is returned
  with the state reached.
\<close>

definition unload :: "host \<Rightarrow> plugin \<Rightarrow> world \<Rightarrow> py_exception option \<times> plugin \<times> world" where
  "unload h self w =
     (let w1 = (case disconnect h (connections w) of
                  Inr n \<Rightarrow>
                    logMessage (plugin_name self @ '': Disconnected from contextMenuAboutToShow.'')
                      (plugin_name self) Info (w\<lparr>connections := n\<rparr>)
                | Inl (TypeError m) \<Rightarrow>
                    logMessage
                      (plugin_name self @
                         '': Signal (contextMenuAboutToShow) was already disconnected or not connected.'')
                      (plugin_name self) Warning w
                | Inl e \<Rightarrow>
                    logMessage (''Error disconnecting signal in unload: '' @ str_exception e)
                      (plugin_name self) Warning w);
          finish = (\<lambda>s v. (None, s, logMessage (plugin_name s @ '': Unloaded successfully.'')
                                      (plugin_name s) Info v))
      in case context_menu_action self of
           None \<Rightarrow> finish self w1
         | Some a \<Rightarrow>
             if \<not> action_deleted w1 then
               (case deleteLater w1 of
                  Inl e \<Rightarrow> (Some e, self, w1)
                | Inr w2 \<Rightarrow>
                    finish (self\<lparr>context_menu_action := None\<rparr>)
                      (logMessage
                         (plugin_name self @ '': Context menu action scheduled for deletion.'')
                         (plugin_name self) Info w2))
             else
               finish (self\<lparr>context_menu_action := None\<rparr>)
                 (logMessage
                    (plugin_name self @
                       '': Context menu action was already deleted (likely by parent).'')
                    (plugin_name self) Info w1))"

text \<open>
  The signal of the host binding: a disconnect with no connection raises \<open>TypeError\<close>,
  otherwise it removes one connection.
\<close>

fun qt_disconnect :: "nat \<Rightarrow> py_exception + nat" where
  "qt_disconnect 0 = Inl (TypeError ''disconnect() failed between contextMenuAboutToShow and prepare_canvas_context_menu'')"
| "qt_disconnect (Suc n) = Inr n"

section \<open>The words of the specification\<close>

text \<open>
  The specification speaks of a component that is NaN, of one that is infinite, and of
  a latitude or longitude that lies in an interval. These are its words, written on
  the values; the theorems compare them with the test the source makes.
\<close>

definition spec_is_nan :: "pyfloat \<Rightarrow> bool" where
  "spec_is_nan v = (v = NaN)"

definition spec_is_infinite :: "pyfloat \<Rightarrow> bool" where
  "spec_is_infinite v = (v = PosInf \<or> v = NegInf)"

fun spec_within :: "real \<Rightarrow> real \<Rightarrow> pyfloat \<Rightarrow> bool" where
  "spec_within lo hi (Fin r) = (lo \<le> r \<and> r \<le> hi)"
| "spec_within lo hi NegZero = (lo \<le> 0 \<and> 0 \<le> hi)"
| "spec_within lo hi PosInf = False"
| "spec_within lo hi NegInf = False"
| "spec_within lo hi NaN = False"

section \<open>A concrete host\<close>

text \<open>
  A host for the examples: a Web Mercator canvas, the point of the specification's
  example (which transforms to latitude 40.7128, longitude -74.006), a point whose
  transform overflows, and a transform that raises everywhere else.
\<close>

definition web_mercator :: crs where
  "web_mercator = \<lparr>isValid = True, authid = ''EPSG:3857''\<rparr>"

definition new_york :: QgsPointXY where
  "new_york = QgsPointXY (Fin (- 8238310.24)) (Fin 4969803.34)"

definition far_away :: QgsPointXY where
  "far_away = QgsPointXY (Fin 1) (Fin 100000000000)"

definition example_host :: host where
  "example_host =
     \<lparr>destinationCrs = web_mercator,
      newCrs = (\<lambda>code. \<lparr>isValid = (code = ''EPSG:4326''), authid = code\<rparr>),
      transform = (\<lambda>src dst p.
         if p = new_york then Inr (QgsPointXY (Fin (- 74.006)) (Fin 40.7128))
         else if p = far_away then Inr (QgsPointXY (Fin 0) PosInf)
         else Inl (QgsCsException ''forward transform failed'')),
      float_str = (\<lambda>v. if v = Fin 40.7128 then ''40.7128''
                        else if v = Fin (- 74.006) then ''-74.006'' else ''nan''),
      toString = (\<lambda>p. ''<QgsPointXY>''),
      disconnect = qt_disconnect\<rparr>"

definition empty_world :: world where
  "empty_world =
     \<lparr>clicked_point_canvas_crs = None, message_bar = [], message_log = [], clipboard = [],
      crs_calls = [], connections = 0, action_deleted = False, deletion_scheduled = False\<rparr>"

definition loaded_plugin :: plugin where
  "loaded_plugin = fst (init 0 empty_world)"

definition loaded_world :: world where
  "loaded_world = initGui loaded_plugin (snd (init 0 empty_world))"

definition clicked_world :: "QgsPointXY \<Rightarrow> world" where
  "clicked_world p = loaded_world\<lparr>clicked_point_canvas_crs := Some p\<rparr>"

text \<open>The loaded plugin, unloaded once and then once more.\<close>

definition unloaded_once :: "py_exception option \<times> plugin \<times> world" where
  "unloaded_once = unload example_host loaded_plugin loaded_world"

definition unloaded_twice :: "py_exception option \<times> plugin \<times> world" where
  "unloaded_twice = unload example_host (fst (snd unloaded_once)) (snd (snd unloaded_once))"


section \<open>The exits of the copy action\<close>

text \<open>The state each exit leaves, one lemma per exit.\<close>

lemmas world_ops = pushMessage_def logMessage_def setText_def called_def clear_point_def

text \<open>The test of the source says what the specification's words say.\<close>

lemma invalid_wgs84_spec:
  "invalid_wgs84 q =
     (spec_is_nan (point_x q) \<or> spec_is_nan (point_y q)
      \<or> spec_is_infinite (point_x q) \<or> spec_is_infinite (point_y q)
      \<or> \<not> spec_within (- 90) 90 (point_y q) \<or> \<not> spec_within (- 180) 180 (point_x q))"
  by (cases q; cases "point_x q"; cases "point_y q")
     (auto simp: invalid_wgs84_def spec_is_nan_def spec_is_infinite_def)

lemma copy_no_point:
  assumes "clicked_point_canvas_crs w = None"
  shows "copy_google_maps_link_from_context h self w =
     (NoPointCaptured,
      w\<lparr>message_bar := message_bar w @
           [BarMessage ''Error''
              ''Could not get clicked point. Please right-click on the map again.'' Critical 4],
        message_log := message_log w @
           [LogEntry ''copy_google_maps_link_from_context: clicked_point_canvas_crs is None.''
              (plugin_name self) Warning]\<rparr>)"
  using assms by (simp add: copy_google_maps_link_from_context_def world_ops)

lemma copy_invalid_source:
  assumes "clicked_point_canvas_crs w = Some p" and "\<not> isValid (destinationCrs h)"
  shows "copy_google_maps_link_from_context h self w =
     (InvalidSourceCRS,
      w\<lparr>clicked_point_canvas_crs := None,
        message_bar := message_bar w @
           [BarMessage ''Error'' ''Invalid Canvas CRS. Cannot perform transformation.'' Critical 5],
        message_log := message_log w @
           [LogEntry (''Invalid Canvas CRS: '' @ authid (destinationCrs h))
              (plugin_name self) Critical],
        crs_calls := crs_calls w @ [DestinationCrs]\<rparr>)"
  using assms by (simp add: copy_google_maps_link_from_context_def world_ops Let_def)

lemma copy_invalid_target:
  assumes "clicked_point_canvas_crs w = Some p" and "isValid (destinationCrs h)"
    and "\<not> isValid (newCrs h ''EPSG:4326'')"
  shows "copy_google_maps_link_from_context h self w =
     (InvalidTargetCRS,
      w\<lparr>clicked_point_canvas_crs := None,
        message_bar := message_bar w @
           [BarMessage ''Error'' ''Could not define target CRS (EPSG:4326).'' Critical 5],
        message_log := message_log w @
           [LogEntry ''Failed to initialize EPSG:4326.'' (plugin_name self) Critical],
        crs_calls := crs_calls w @ [DestinationCrs, NewCrs ''EPSG:4326'']\<rparr>)"
  using assms by (simp add: copy_google_maps_link_from_context_def world_ops Let_def)

lemma copy_transform_raises:
  assumes "clicked_point_canvas_crs w = Some p" and "isValid (destinationCrs h)"
    and "isValid (newCrs h ''EPSG:4326'')"
    and "transform h (destinationCrs h) (newCrs h ''EPSG:4326'') p = Inl e"
  shows "copy_google_maps_link_from_context h self w =
     (TransformError,
      w\<lparr>clicked_point_canvas_crs := None,
        message_bar := message_bar w @
           [BarMessage ''Error'' (''Error copying Google Maps link: '' @ str_exception e)
              Critical 5],
        message_log := message_log w @
           [LogEntry (''Error copying Google Maps link: '' @ str_exception e)
              (plugin_name self) Critical],
        crs_calls := crs_calls w @
           [DestinationCrs, NewCrs ''EPSG:4326'',
            Transform (destinationCrs h) (newCrs h ''EPSG:4326'') p]\<rparr>)"
  using assms by (simp add: copy_google_maps_link_from_context_def world_ops Let_def)

lemma copy_invalid_result:
  assumes "clicked_point_canvas_crs w = Some p" and "isValid (destinationCrs h)"
    and "isValid (newCrs h ''EPSG:4326'')"
    and "transform h (destinationCrs h) (newCrs h ''EPSG:4326'') p = Inr q"
    and "invalid_wgs84 q"
  shows "copy_google_maps_link_from_context h self w =
     (InvalidTransformResult,
      w\<lparr>clicked_point_canvas_crs := None,
        message_bar := message_bar w @
           [BarMessage ''Error''
              ''Coordinate transformation failed or resulted in invalid WGS84 coordinates. Check project CRS.''
              Critical 5],
        message_log := message_log w @
           [LogEntry
              (''Coordinate transformation resulted in invalid WGS84. Original: ''
                 @ toString h p @ '', Canvas CRS: '' @ authid (destinationCrs h)
                 @ '', Transformed: '' @ toString h q)
              (plugin_name self) Critical],
        crs_calls := crs_calls w @
           [DestinationCrs, NewCrs ''EPSG:4326'',
            Transform (destinationCrs h) (newCrs h ''EPSG:4326'') p]\<rparr>)"
  using assms by (simp add: copy_google_maps_link_from_context_def world_ops Let_def)

lemma copy_valid_result:
  assumes "clicked_point_canvas_crs w = Some p" and "isValid (destinationCrs h)"
    and "isValid (newCrs h ''EPSG:4326'')"
    and "transform h (destinationCrs h) (newCrs h ''EPSG:4326'') p = Inr q"
    and "\<not> invalid_wgs84 q"
  shows "copy_google_maps_link_from_context h self w =
     (CopySuccess,
      w\<lparr>clicked_point_canvas_crs := None,
        message_bar := message_bar w @
           [BarMessage ''Success''
              (''Google Maps link copied: '' @ ''https://www.google.com/maps?q=''
                 @ float_str h (point_y q) @ '','' @ float_str h (point_x q))
              Success 5],
        clipboard := clipboard w @
           [''https://www.google.com/maps?q='' @ float_str h (point_y q) @ '',''
              @ float_str h (point_x q)],
        crs_calls := crs_calls w @
           [DestinationCrs, NewCrs ''EPSG:4326'',
            Transform (destinationCrs h) (newCrs h ''EPSG:4326'') p]\<rparr>)"
  using assms
  by (simp add: copy_google_maps_link_from_context_def world_ops Let_def google_maps_link_def)

text \<open>The six exits, as cases of a proof.\<close>

lemma copy_cases:
  obtains
    (no_point) "clicked_point_canvas_crs w = None"
  | (bad_source) p where "clicked_point_canvas_crs w = Some p" "\<not> isValid (destinationCrs h)"
  | (bad_target) p where "clicked_point_canvas_crs w = Some p" "isValid (destinationCrs h)"
      "\<not> isValid (newCrs h ''EPSG:4326'')"
  | (raises) p e where "clicked_point_canvas_crs w = Some p" "isValid (destinationCrs h)"
      "isValid (newCrs h ''EPSG:4326'')"
      "transform h (destinationCrs h) (newCrs h ''EPSG:4326'') p = Inl e"
  | (bad_result) p q where "clicked_point_canvas_crs w = Some p" "isValid (destinationCrs h)"
      "isValid (newCrs h ''EPSG:4326'')"
      "transform h (destinationCrs h) (newCrs h ''EPSG:4326'') p = Inr q" "invalid_wgs84 q"
  | (good) p q where "clicked_point_canvas_crs w = Some p" "isValid (destinationCrs h)"
      "isValid (newCrs h ''EPSG:4326'')"
      "transform h (destinationCrs h) (newCrs h ''EPSG:4326'') p = Inr q" "\<not> invalid_wgs84 q"
proof (cases "clicked_point_canvas_crs w")
  case None
  then show ?thesis by (rule no_point)
next
  case (Some p)
  show ?thesis
  proof (cases "isValid (destinationCrs h)")
    case False
    with Some show ?thesis by (rule bad_source)
  next
    case src: True
    show ?thesis
    proof (cases "isValid (newCrs h ''EPSG:4326'')")
      case False
      with Some src show ?thesis by (rule bad_target)
    next
      case tgt: True
      show ?thesis
      proof (cases "transform h (destinationCrs h) (newCrs h ''EPSG:4326'') p")
        case (Inl e)
        with Some src tgt show ?thesis by (rule raises)
      next
        case (Inr q)
        show ?thesis
        proof (cases "invalid_wgs84 q")
          case True
          with Some src tgt Inr show ?thesis by (rule bad_result)
        next
          case False
          with Some src tgt Inr show ?thesis by (rule good)
        qed
      qed
    qed
  qed
qed

text \<open>Which exit is taken, and which calls reach the reference-system service.\<close>

lemma copy_exit_decided:
  "fst (copy_google_maps_link_from_context h self w) =
     (case clicked_point_canvas_crs w of
        None \<Rightarrow> NoPointCaptured
      | Some p \<Rightarrow>
          if \<not> isValid (destinationCrs h) then InvalidSourceCRS
          else if \<not> isValid (newCrs h ''EPSG:4326'') then InvalidTargetCRS
          else (case transform h (destinationCrs h) (newCrs h ''EPSG:4326'') p of
                  Inl e \<Rightarrow> TransformError
                | Inr q \<Rightarrow> if invalid_wgs84 q then InvalidTransformResult else CopySuccess))"
proof (cases rule: copy_cases [where w = w and h = h])
  case no_point
  then show ?thesis by (simp add: copy_no_point)
next
  case (bad_source p)
  then show ?thesis by (simp add: copy_invalid_source)
next
  case (bad_target p)
  then show ?thesis by (simp add: copy_invalid_target)
next
  case (raises p e)
  then show ?thesis by (simp add: copy_transform_raises)
next
  case (bad_result p q)
  then show ?thesis by (simp add: copy_invalid_result)
next
  case (good p q)
  then show ?thesis by (simp add: copy_valid_result)
qed


text \<open>A copy action does not read the message log.\<close>

lemma copy_ignores_log:
  "fst (copy_google_maps_link_from_context h self (w\<lparr>message_log := l\<rparr>)) =
     fst (copy_google_maps_link_from_context h self w)
   \<and> clipboard (snd (copy_google_maps_link_from_context h self (w\<lparr>message_log := l\<rparr>))) =
     clipboard (snd (copy_google_maps_link_from_context h self w))"
proof (cases rule: copy_cases [where w = w and h = h])
  case no_point
  then show ?thesis by (simp add: copy_no_point)
next
  case (bad_source p)
  then show ?thesis by (simp add: copy_invalid_source)
next
  case (bad_target p)
  then show ?thesis by (simp add: copy_invalid_target)
next
  case (raises p e)
  then show ?thesis by (simp add: copy_transform_raises)
next
  case (bad_result p q)
  then show ?thesis by (simp add: copy_invalid_result)
next
  case (good p q)
  then show ?thesis by (simp add: copy_valid_result)
qed

section \<open>The menu handler and the unloading\<close>



lemma prepare_invalid:
  assumes "event = None \<or> (\<exists>e. event = Some e \<and> mapPoint e = None)"
  shows "prepare_canvas_context_menu self menu event w =
     (None, menu,
      w\<lparr>message_log := message_log w @
          [LogEntry
             (plugin_name self @
                '': prepare_canvas_context_menu called without a valid event or mapPoint.'')
             (plugin_name self) Warning]\<rparr>)"
  using assms by (auto simp add: prepare_canvas_context_menu_def logMessage_def)

text \<open>
  No exit of \<open>unload\<close> raises: \<open>deleteLater\<close> is reached only when the C++ object
  of the action is still there.
\<close>

lemma unload_never_raises: "fst (unload h self w) = None"
  by (simp add: unload_def deleteLater_def logMessage_def Let_def
      split: sum.split py_exception.split option.split)

lemma unload_releases_action: "context_menu_action (fst (snd (unload h self w))) = None"
  by (simp add: unload_def deleteLater_def logMessage_def Let_def
      split: sum.split py_exception.split option.split)

lemma unload_no_ui:
  "message_bar (snd (snd (unload h self w))) = message_bar w
   \<and> clipboard (snd (snd (unload h self w))) = clipboard w"
  by (simp add: unload_def deleteLater_def logMessage_def Let_def
      split: sum.split py_exception.split option.split)

lemma unload_released:
  assumes "context_menu_action self = None"
  shows "deletion_scheduled (snd (snd (unload h self w))) = deletion_scheduled w"
  using assms
  by (simp add: unload_def logMessage_def Let_def split: sum.split py_exception.split)

section \<open>Claims\<close>

text \<open>
  C1. When a clicked point is captured, the reference system of the canvas is valid,
  the WGS84 reference system is constructed valid, the transform returns a point, and
  that point has components that are not NaN and not infinite, with latitude in
  [-90, 90] and longitude in [-180, 180], the copy action sets on the clipboard exactly
  the link with the latitude (the transformed y) before the longitude (the transformed
  x), pushes a success message that contains the same link, and clears the point.
\<close>

theorem copy_success:
  assumes "clicked_point_canvas_crs w = Some p"
    and "isValid (destinationCrs h)"
    and "isValid (newCrs h ''EPSG:4326'')"
    and "transform h (destinationCrs h) (newCrs h ''EPSG:4326'') p = Inr q"
    and "\<not> spec_is_nan (point_x q)" and "\<not> spec_is_nan (point_y q)"
    and "\<not> spec_is_infinite (point_x q)" and "\<not> spec_is_infinite (point_y q)"
    and "spec_within (- 90) 90 (point_y q)"
    and "spec_within (- 180) 180 (point_x q)"
  shows "fst (copy_google_maps_link_from_context h self w) = CopySuccess
    \<and> clipboard (snd (copy_google_maps_link_from_context h self w)) =
        clipboard w @
          [''https://www.google.com/maps?q='' @ float_str h (point_y q) @ '',''
             @ float_str h (point_x q)]
    \<and> message_bar (snd (copy_google_maps_link_from_context h self w)) =
        message_bar w @
          [BarMessage ''Success''
             (''Google Maps link copied: '' @ ''https://www.google.com/maps?q=''
                @ float_str h (point_y q) @ '','' @ float_str h (point_x q))
             Success 5]
    \<and> clicked_point_canvas_crs (snd (copy_google_maps_link_from_context h self w)) = None"
proof -
  from assms(5-10) have "\<not> invalid_wgs84 q"
    by (simp add: invalid_wgs84_spec)
  with assms(1-4) show ?thesis
    by (simp add: copy_valid_result)
qed

theorem copy_success_witness:
  "fst (copy_google_maps_link_from_context example_host loaded_plugin (clicked_world new_york))
     = CopySuccess
   \<and> clipboard (snd (copy_google_maps_link_from_context example_host loaded_plugin
                      (clicked_world new_york)))
     = [''https://www.google.com/maps?q=40.7128,-74.006'']
   \<and> message_bar (snd (copy_google_maps_link_from_context example_host loaded_plugin
                        (clicked_world new_york)))
     = [BarMessage ''Success''
          ''Google Maps link copied: https://www.google.com/maps?q=40.7128,-74.006'' Success 5]
   \<and> clicked_point_canvas_crs (snd (copy_google_maps_link_from_context example_host
                                     loaded_plugin (clicked_world new_york))) = None"
  using copy_success [of "clicked_world new_york" new_york example_host
      "QgsPointXY (Fin (- 74.006)) (Fin 40.7128)" loaded_plugin]
  by (simp add: clicked_world_def loaded_world_def loaded_plugin_def init_def initGui_def
      empty_world_def example_host_def web_mercator_def logMessage_def
      spec_is_nan_def spec_is_infinite_def)

text \<open>
  C2. After every invocation of the copy action, on each of the five failures and on
  success, the stored clicked point is absent.
\<close>

theorem copy_clears_point:
  "clicked_point_canvas_crs (snd (copy_google_maps_link_from_context h self w)) = None"
proof (cases rule: copy_cases [where w = w and h = h])
  case no_point
  then show ?thesis by (simp add: copy_no_point)
next
  case (bad_source p)
  then show ?thesis by (simp add: copy_invalid_source)
next
  case (bad_target p)
  then show ?thesis by (simp add: copy_invalid_target)
next
  case (raises p e)
  then show ?thesis by (simp add: copy_transform_raises)
next
  case (bad_result p q)
  then show ?thesis by (simp add: copy_invalid_result)
next
  case (good p q)
  then show ?thesis by (simp add: copy_valid_result)
qed

theorem copy_clears_point_witness:
  "clicked_point_canvas_crs (clicked_world new_york) = Some new_york
   \<and> clicked_point_canvas_crs
        (snd (copy_google_maps_link_from_context example_host loaded_plugin
                (clicked_world new_york))) = None"
  using copy_clears_point [of example_host loaded_plugin "clicked_world new_york"]
  by (simp add: clicked_world_def)

text \<open>
  C3. When the transformed point has a latitude outside [-90, 90], a longitude outside
  [-180, 180], a NaN component or an infinite component, the copy action ends with
  InvalidTransformResult, pushes an error message, clears the point, and sets nothing
  on the clipboard.
\<close>

theorem copy_invalid_transform_result:
  assumes "clicked_point_canvas_crs w = Some p"
    and "isValid (destinationCrs h)"
    and "isValid (newCrs h ''EPSG:4326'')"
    and "transform h (destinationCrs h) (newCrs h ''EPSG:4326'') p = Inr q"
    and "\<not> spec_within (- 90) 90 (point_y q) \<or> \<not> spec_within (- 180) 180 (point_x q)
         \<or> spec_is_nan (point_x q) \<or> spec_is_nan (point_y q)
         \<or> spec_is_infinite (point_x q) \<or> spec_is_infinite (point_y q)"
  shows "fst (copy_google_maps_link_from_context h self w) = InvalidTransformResult
    \<and> message_bar (snd (copy_google_maps_link_from_context h self w)) =
        message_bar w @
          [BarMessage ''Error''
             ''Coordinate transformation failed or resulted in invalid WGS84 coordinates. Check project CRS.''
             Critical 5]
    \<and> clicked_point_canvas_crs (snd (copy_google_maps_link_from_context h self w)) = None
    \<and> clipboard (snd (copy_google_maps_link_from_context h self w)) = clipboard w"
proof -
  from assms(5) have "invalid_wgs84 q"
    by (auto simp add: invalid_wgs84_spec)
  with assms(1-4) show ?thesis
    by (simp add: copy_invalid_result)
qed

theorem copy_invalid_transform_result_witness:
  "fst (copy_google_maps_link_from_context example_host loaded_plugin (clicked_world far_away))
     = InvalidTransformResult
   \<and> message_bar (snd (copy_google_maps_link_from_context example_host loaded_plugin
                        (clicked_world far_away)))
     = [BarMessage ''Error''
          ''Coordinate transformation failed or resulted in invalid WGS84 coordinates. Check project CRS.''
          Critical 5]
   \<and> clicked_point_canvas_crs (snd (copy_google_maps_link_from_context example_host
                                     loaded_plugin (clicked_world far_away))) = None
   \<and> clipboard (snd (copy_google_maps_link_from_context example_host loaded_plugin
                      (clicked_world far_away))) = []"
  using copy_invalid_transform_result [of "clicked_world far_away" far_away example_host
      "QgsPointXY (Fin 0) PosInf" loaded_plugin]
  by (simp add: clicked_world_def loaded_world_def loaded_plugin_def init_def initGui_def
      empty_world_def example_host_def web_mercator_def logMessage_def
      spec_is_nan_def spec_is_infinite_def far_away_def new_york_def)

text \<open>
  C4. The copy action with no captured point ends with NoPointCaptured, pushes an error
  message of duration 4 to the message bar, and sets nothing on the clipboard.
\<close>

theorem copy_without_point:
  assumes "clicked_point_canvas_crs w = None"
  shows "fst (copy_google_maps_link_from_context h self w) = NoPointCaptured
    \<and> message_bar (snd (copy_google_maps_link_from_context h self w)) =
        message_bar w @
          [BarMessage ''Error''
             ''Could not get clicked point. Please right-click on the map again.'' Critical 4]
    \<and> clipboard (snd (copy_google_maps_link_from_context h self w)) = clipboard w"
  using assms by (simp add: copy_no_point)

theorem copy_without_point_witness:
  "clicked_point_canvas_crs loaded_world = None
   \<and> fst (copy_google_maps_link_from_context example_host loaded_plugin loaded_world)
     = NoPointCaptured
   \<and> message_bar (snd (copy_google_maps_link_from_context example_host loaded_plugin
                        loaded_world))
     = [BarMessage ''Error''
          ''Could not get clicked point. Please right-click on the map again.'' Critical 4]
   \<and> clipboard (snd (copy_google_maps_link_from_context example_host loaded_plugin
                      loaded_world)) = []"
  using copy_without_point [of loaded_world example_host loaded_plugin]
  by (simp add: loaded_world_def loaded_plugin_def init_def initGui_def
      empty_world_def logMessage_def)



text \<open>
  C6. Whatever exception the transform raises, the copy action ends with
  TransformError, the message pushed and logged ends with the text of the exception,
  the point is cleared, and nothing is set on the clipboard.
\<close>

theorem copy_transform_error:
  assumes "clicked_point_canvas_crs w = Some p"
    and "isValid (destinationCrs h)"
    and "isValid (newCrs h ''EPSG:4326'')"
    and "transform h (destinationCrs h) (newCrs h ''EPSG:4326'') p = Inl e"
  shows "fst (copy_google_maps_link_from_context h self w) = TransformError
    \<and> message_bar (snd (copy_google_maps_link_from_context h self w)) =
        message_bar w @
          [BarMessage ''Error'' (''Error copying Google Maps link: '' @ str_exception e)
             Critical 5]
    \<and> message_log (snd (copy_google_maps_link_from_context h self w)) =
        message_log w @
          [LogEntry (''Error copying Google Maps link: '' @ str_exception e)
             (plugin_name self) Critical]
    \<and> clicked_point_canvas_crs (snd (copy_google_maps_link_from_context h self w)) = None
    \<and> clipboard (snd (copy_google_maps_link_from_context h self w)) = clipboard w"
  using assms by (simp add: copy_transform_raises)

theorem copy_transform_error_witness:
  "fst (copy_google_maps_link_from_context example_host loaded_plugin
          (clicked_world (QgsPointXY (Fin 0) (Fin 0)))) = TransformError
   \<and> message_bar (snd (copy_google_maps_link_from_context example_host loaded_plugin
                        (clicked_world (QgsPointXY (Fin 0) (Fin 0)))))
     = [BarMessage ''Error'' ''Error copying Google Maps link: forward transform failed''
          Critical 5]
   \<and> clicked_point_canvas_crs (snd (copy_google_maps_link_from_context example_host
        loaded_plugin (clicked_world (QgsPointXY (Fin 0) (Fin 0))))) = None
   \<and> clipboard (snd (copy_google_maps_link_from_context example_host loaded_plugin
                      (clicked_world (QgsPointXY (Fin 0) (Fin 0))))) = []"
  using copy_transform_error [of "clicked_world (QgsPointXY (Fin 0) (Fin 0))"
      "QgsPointXY (Fin 0) (Fin 0)" example_host "QgsCsException ''forward transform failed''"
      loaded_plugin]
  by (simp add: clicked_world_def loaded_world_def loaded_plugin_def init_def initGui_def
      empty_world_def example_host_def web_mercator_def logMessage_def
      far_away_def new_york_def)




text \<open>
  C8. Of two unloads in a row neither raises; the second pushes nothing to the message
  bar, sets nothing on the clipboard, finds the action already released by the first
  and schedules no deletion.
\<close>

theorem unload_twice:
  assumes "unload h self w = (x1, self1, w1)"
    and "unload h self1 w1 = (x2, self2, w2)"
  shows "x1 = None \<and> x2 = None
    \<and> message_bar w2 = message_bar w1 \<and> clipboard w2 = clipboard w1
    \<and> context_menu_action self1 = None
    \<and> deletion_scheduled w2 = deletion_scheduled w1"
proof -
  have first: "x1 = None" "context_menu_action self1 = None"
    using unload_never_raises [of h self w] unload_releases_action [of h self w] assms(1)
    by simp_all
  have second: "x2 = None" "message_bar w2 = message_bar w1 \<and> clipboard w2 = clipboard w1"
    using unload_never_raises [of h self1 w1] unload_no_ui [of h self1 w1] assms(2)
    by simp_all
  have "deletion_scheduled w2 = deletion_scheduled w1"
    using unload_released [OF first(2), of h w1] assms(2) by simp
  with first second show ?thesis by simp
qed

theorem unload_twice_witness:
  "fst unloaded_once = None \<and> fst unloaded_twice = None
   \<and> message_bar (snd (snd unloaded_twice)) = []
   \<and> clipboard (snd (snd unloaded_twice)) = []
   \<and> context_menu_action (fst (snd unloaded_once)) = None
   \<and> message_log (snd (snd unloaded_twice)) =
       message_log (snd (snd unloaded_once)) @
         [LogEntry
            ''Copy Google Maps Link: Signal (contextMenuAboutToShow) was already disconnected or not connected.''
            ''Copy Google Maps Link'' Warning,
          LogEntry ''Copy Google Maps Link: Unloaded successfully.''
            ''Copy Google Maps Link'' Info]"
  using unload_twice [of example_host loaded_plugin loaded_world
      "fst unloaded_once" "fst (snd unloaded_once)" "snd (snd unloaded_once)"
      "fst unloaded_twice" "fst (snd unloaded_twice)" "snd (snd unloaded_twice)"]
  by (simp add: unloaded_once_def unloaded_twice_def unload_def deleteLater_def
      loaded_world_def loaded_plugin_def init_def initGui_def empty_world_def
      example_host_def logMessage_def)

text \<open>
  C9. The menu handler invoked with no event or no map point leaves the stored point
  as it was, so that a copy action after it ends as it would have without it, with
  the same texts on the clipboard.
\<close>

theorem invalid_event_keeps_point:
  assumes "event = None \<or> (\<exists>e. event = Some e \<and> mapPoint e = None)"
  shows "clicked_point_canvas_crs (snd (snd (prepare_canvas_context_menu self menu event w)))
       = clicked_point_canvas_crs w
    \<and> fst (copy_google_maps_link_from_context h self
             (snd (snd (prepare_canvas_context_menu self menu event w))))
       = fst (copy_google_maps_link_from_context h self w)
    \<and> clipboard (snd (copy_google_maps_link_from_context h self
                       (snd (snd (prepare_canvas_context_menu self menu event w)))))
       = clipboard (snd (copy_google_maps_link_from_context h self w))"
  using assms by (simp add: prepare_invalid copy_ignores_log)

theorem invalid_event_keeps_point_witness:
  "clicked_point_canvas_crs
     (snd (snd (prepare_canvas_context_menu loaded_plugin [] None (clicked_world new_york))))
     = Some new_york
   \<and> fst (copy_google_maps_link_from_context example_host loaded_plugin
            (snd (snd (prepare_canvas_context_menu loaded_plugin [] None
                         (clicked_world new_york))))) = CopySuccess
   \<and> clipboard (snd (copy_google_maps_link_from_context example_host loaded_plugin
            (snd (snd (prepare_canvas_context_menu loaded_plugin [] None
                         (clicked_world new_york))))))
     = [''https://www.google.com/maps?q=40.7128,-74.006'']"
  using invalid_event_keeps_point [of None loaded_plugin "[]" "clicked_world new_york"
      example_host]
    copy_valid_result [of "clicked_world new_york" new_york example_host
      "QgsPointXY (Fin (- 74.006)) (Fin 40.7128)" loaded_plugin]
  by (simp add: clicked_world_def loaded_world_def loaded_plugin_def init_def initGui_def
      empty_world_def example_host_def web_mercator_def logMessage_def invalid_wgs84_def)

text \<open>
  C10. The copy action extends the texts set on the clipboard by exactly one text when
  it ends with success, and by none on each of the five failures.
\<close>

theorem clipboard_written_iff_success:
  "\<exists>new. clipboard (snd (copy_google_maps_link_from_context h self w)) = clipboard w @ new
      \<and> length new =
          (if fst (copy_google_maps_link_from_context h self w) = CopySuccess then 1 else 0)"
proof (cases rule: copy_cases [where w = w and h = h])
  case no_point
  then show ?thesis by (simp add: copy_no_point)
next
  case (bad_source p)
  then show ?thesis by (simp add: copy_invalid_source)
next
  case (bad_target p)
  then show ?thesis by (simp add: copy_invalid_target)
next
  case (raises p e)
  then show ?thesis by (simp add: copy_transform_raises)
next
  case (bad_result p q)
  then show ?thesis by (simp add: copy_invalid_result)
next
  case (good p q)
  then show ?thesis by (simp add: copy_valid_result)
qed

theorem clipboard_written_iff_success_witness:
  "fst (copy_google_maps_link_from_context example_host loaded_plugin (clicked_world new_york))
     = CopySuccess
   \<and> length (clipboard (snd (copy_google_maps_link_from_context example_host loaded_plugin
                     (clicked_world new_york)))) = 1
   \<and> fst (copy_google_maps_link_from_context example_host loaded_plugin (clicked_world far_away))
     = InvalidTransformResult
   \<and> clipboard (snd (copy_google_maps_link_from_context example_host loaded_plugin
                     (clicked_world far_away))) = []"
  using clipboard_written_iff_success [of example_host loaded_plugin "clicked_world new_york"]
    clipboard_written_iff_success [of example_host loaded_plugin "clicked_world far_away"]
  by (auto simp add: clicked_world_def loaded_world_def loaded_plugin_def init_def initGui_def
      empty_world_def example_host_def web_mercator_def logMessage_def invalid_wgs84_def
      copy_exit_decided far_away_def new_york_def)

end
